theory Spec2Isabelle
  imports Complex_Main "HOL-Library.AList"
begin

section \<open>Data model of \<^verbatim>\<open>network_monitor.py\<close>\<close>

text \<open>
  Python floats (clock readings, rates, durations) are modelled as exact reals, Python
  ints as \<open>int\<close>.  A Python \<^verbatim>\<open>dict\<close> is an association list in insertion order whose
  keys are kept distinct by \<open>AList.update\<close> (assigning to an existing key keeps its
  position, assigning to a new key appends).  Fields of different classes that share a
  name in the source carry a prefix here, because record fields share one name space.
\<close>

datatype error =
  AccessDenied | PermissionError | NoSuchProcess | ValueError | AttributeError
| TimeoutExpired | FileNotFoundError | RuntimeError | OtherError

text \<open>
  The two fields the monitor reads of what \<^verbatim>\<open>psutil.net_io_counters()\<close> returns.  The
  call returns \<^verbatim>\<open>None\<close> when the host has no interface; a sample is therefore an
  \<open>snetio option\<close>.
\<close>

record snetio =
  bytes_sent :: int
  bytes_recv :: int

text \<open>The dataclass \<^verbatim>\<open>BandwidthPoint\<close>.\<close>

record BandwidthPoint =
  timestamp :: real
  upload :: real
  download :: real

definition to_dict :: "BandwidthPoint \<Rightarrow> (string \<times> real) list" where
  "to_dict p = [(''timestamp'', timestamp p), (''upload'', upload p), (''download'', download p)]"

text \<open>
  \<^verbatim>\<open>collections.deque(maxlen=n)\<close>: \<^verbatim>\<open>append\<close> adds on the right and, when the
  length then exceeds \<open>maxlen\<close>, drops the leftmost element.
\<close>

record 'a deque =
  maxlen :: nat
  items :: "'a list"

definition deque_append :: "'a deque \<Rightarrow> 'a \<Rightarrow> 'a deque" where
  "deque_append d x =
     (let ys = items d @ [x]
      in d\<lparr>items := (if length ys > maxlen d then tl ys else ys)\<rparr>)"

text \<open>One entry of \<^verbatim>\<open>nettop\<close> output after parsing, and one entry of the rate table.\<close>

record proc_counters =
  bytes_in :: real
  bytes_out :: real

record proc_bw =
  bw_download :: real
  bw_upload :: real

text \<open>A socket as \<^verbatim>\<open>psutil.net_connections\<close> reports it; an empty address tuple is \<open>None\<close>.\<close>

record addr =
  ip :: string
  port :: int

datatype SocketKind = SOCK_STREAM | SOCK_DGRAM

record sconn =
  laddr :: "addr option"
  raddr :: "addr option"
  sock_type :: SocketKind
  status :: string
  sconn_pid :: "int option"

text \<open>The dictionary stored per connection in \<^verbatim>\<open>self.connections\<close>.\<close>

record connection =
  conn_id :: string
  local_addr :: string
  remote_addr :: string
  protocol :: string
  state :: string
  process_name :: string
  pid :: int
  upload_speed :: real
  download_speed :: real
  duration :: real
  conn_bytes_sent :: int
  conn_bytes_received :: int
  conn_start_time :: real

record stats =
  total_upload_speed :: real
  total_download_speed :: real
  stats_active_connections :: nat
  stats_total_bytes_sent :: int
  stats_total_bytes_received :: int
  uptime :: real

record snapshot =
  snap_connections :: "connection list"
  snap_stats :: stats

text \<open>The attributes of a \<^verbatim>\<open>NetworkMonitor\<close> object.\<close>

record monitor =
  history_length :: int
  bandwidth_history :: "BandwidthPoint deque"
  connections :: "(string \<times> connection) list"
  previous_io_counters :: "snetio option"
  previous_time :: "real option"
  start_time :: real
  total_bytes_sent :: int
  total_bytes_received :: int
  process_bandwidth :: "(int \<times> proc_bw) list"
  previous_process_counters :: "(int \<times> proc_counters) list"
  previous_nettop_time :: "real option"

section \<open>What the environment returns during one call of \<^verbatim>\<open>update\<close>\<close>

text \<open>
  The outcome of the \<^verbatim>\<open>try\<close> block of \<^verbatim>\<open>_update_process_bandwidth\<close> up to the point
  where it starts to write attributes: either an exception was raised (by
  \<^verbatim>\<open>subprocess.run\<close>: a timeout, a missing executable, or anything else), or the tool
  exited with a return code and the parsing loop stored the given entries, in line
  order, into \<^verbatim>\<open>current_counters\<close>.  The text parsing itself is not modelled: every
  statement below holds for whatever list of entries it yields.
\<close>

datatype nettop_result =
  Nettop_raised error
| Nettop_exit int "(int \<times> proc_counters) list"

text \<open>
  One enumerated socket together with what the environment answers while the loop body
  processes it: the outcome of \<^verbatim>\<open>psutil.Process(pid).name()\<close> and the reading of
  \<^verbatim>\<open>time.time()\<close> (the body reads the clock exactly once, in either branch).
\<close>

record conn_obs =
  obs_conn :: sconn
  obs_name :: "error + string"
  obs_time :: real

record tick =
  io_sample :: "error + snetio option"
  io_time :: real
  nettop_time :: real
  nettop_run :: nettop_result
  conn_sample :: "error + conn_obs list"
  end_time :: real

section \<open>\<^verbatim>\<open>NetworkMonitor\<close>\<close>

subsection \<open>\<^verbatim>\<open>_update_io_counters\<close>\<close>

text \<open>
  Lines 73 to 88.  With a baseline and a positive elapsed time the attribute access on a
  \<^verbatim>\<open>None\<close> sample raises before anything is written.
\<close>

definition history_step :: "monitor \<Rightarrow> snetio option \<Rightarrow> real \<Rightarrow> error + monitor" where
  "history_step m current_counters current_time =
     (case (previous_io_counters m, previous_time m) of
        (Some prev, Some prev_time) \<Rightarrow>
          (let time_delta = current_time - prev_time
           in if time_delta > 0 then
                (case current_counters of
                   None \<Rightarrow> Inl AttributeError
                 | Some cur \<Rightarrow>
                     (let bytes_sent_delta = bytes_sent cur - bytes_sent prev;
                          bytes_recv_delta = bytes_recv cur - bytes_recv prev;
                          upload_speed = real_of_int bytes_sent_delta / time_delta;
                          download_speed = real_of_int bytes_recv_delta / time_delta;
                          point = \<lparr>timestamp = current_time, upload = upload_speed,
                                   download = download_speed\<rparr>
                      in Inr (m\<lparr>bandwidth_history :=
                                  deque_append (bandwidth_history m) point\<rparr>)))
              else Inr m)
      | _ \<Rightarrow> Inr m)"

text \<open>
  The whole method: the object as the call leaves it, and the exception that leaves the
  call, if any.  An exception of \<^verbatim>\<open>psutil.net_io_counters()\<close> itself leaves the object as it
  was.  Lines 90 and 91 store the sample and the clock reading before line 92 reads the
  sample's fields, so a \<^verbatim>\<open>None\<close> sample that reaches them is stored as the baseline and
  then raises.
\<close>

definition update_io_counters ::
  "monitor \<Rightarrow> error + snetio option \<Rightarrow> real \<Rightarrow> monitor \<times> error option" where
  "update_io_counters m sample current_time =
     (case sample of
        Inl e \<Rightarrow> (m, Some e)
      | Inr current_counters \<Rightarrow>
          (case history_step m current_counters current_time of
             Inl e \<Rightarrow> (m, Some e)
           | Inr m1 \<Rightarrow>
               (let m2 = m1\<lparr>previous_io_counters := current_counters,
                              previous_time := Some current_time\<rparr>
                in (case current_counters of
                      None \<Rightarrow> (m2, Some AttributeError)
                    | Some cur \<Rightarrow>
                        (m2\<lparr>total_bytes_sent := bytes_sent cur,
                            total_bytes_received := bytes_recv cur\<rparr>, None)))))"

subsection \<open>\<^verbatim>\<open>__init__\<close>\<close>

text \<open>
  \<^verbatim>\<open>deque(maxlen=history_length)\<close> raises \<^verbatim>\<open>ValueError\<close> for a negative length.  The
  constructor reads the clock for \<^verbatim>\<open>start_time\<close> and then takes a first sample of the
  counters through \<^verbatim>\<open>_update_io_counters\<close>.
\<close>

definition fresh_monitor :: "int \<Rightarrow> real \<Rightarrow> monitor" where
  "fresh_monitor n t_start =
     \<lparr>history_length = n,
      bandwidth_history = \<lparr>maxlen = nat n, items = []\<rparr>,
      connections = [],
      previous_io_counters = None,
      previous_time = None,
      start_time = t_start,
      total_bytes_sent = 0,
      total_bytes_received = 0,
      process_bandwidth = [],
      previous_process_counters = [],
      previous_nettop_time = None\<rparr>"

definition NetworkMonitor_init ::
  "int \<Rightarrow> real \<Rightarrow> error + snetio option \<Rightarrow> real \<Rightarrow> error + monitor" where
  "NetworkMonitor_init n t_start sample t_sample =
     (if n < 0 then Inl ValueError
      else
        (case update_io_counters (fresh_monitor n t_start) sample t_sample of
           (m, Some e) \<Rightarrow> Inl e
         | (m, None) \<Rightarrow> Inr m))"

subsection \<open>String formatting\<close>

definition digit_char :: "nat \<Rightarrow> char" where
  "digit_char d = ''0123456789'' ! d"

function str_nat :: "nat \<Rightarrow> string" where
  "str_nat n = (if n < 10 then [digit_char n] else str_nat (n div 10) @ [digit_char (n mod 10)])"
  by pat_completeness auto
termination
  by (relation "measure (\<lambda>n. n)") auto

declare str_nat.simps [simp del]

definition str_int :: "int \<Rightarrow> string" where
  "str_int i = (if i < 0 then CHR ''-'' # str_nat (nat (- i)) else str_nat (nat i))"

text \<open>\<^verbatim>\<open>str\<close> of an optional pid, as an f-string prints it.\<close>

definition str_pid :: "int option \<Rightarrow> string" where
  "str_pid p = (case p of None \<Rightarrow> ''None'' | Some i \<Rightarrow> str_int i)"

definition name_of :: "SocketKind \<Rightarrow> string" where
  "name_of k = (case k of SOCK_STREAM \<Rightarrow> ''SOCK_STREAM'' | SOCK_DGRAM \<Rightarrow> ''SOCK_DGRAM'')"

definition endpoint :: "addr \<Rightarrow> string" where
  "endpoint a = ip a @ '':'' @ str_int (port a)"

definition get_connection_id :: "sconn \<Rightarrow> string" where
  "get_connection_id conn =
     (let local = (case laddr conn of Some a \<Rightarrow> endpoint a | None \<Rightarrow> ''unknown'');
          remote = (case raddr conn of Some a \<Rightarrow> endpoint a | None \<Rightarrow> ''unknown'')
      in name_of (sock_type conn) @ ''_'' @ local @ ''_'' @ remote @ ''_'' @ str_pid (sconn_pid conn))"

definition format_addr :: "addr option \<Rightarrow> string" where
  "format_addr a = (case a of Some x \<Rightarrow> endpoint x | None \<Rightarrow> ''N/A'')"

subsection \<open>\<^verbatim>\<open>_get_process_name\<close>\<close>

definition get_process_name :: "int option \<Rightarrow> error + string \<Rightarrow> error + string" where
  "get_process_name p lookup =
     (case p of
        None \<Rightarrow> Inr ''Unknown''
      | Some _ \<Rightarrow>
          (case lookup of
             Inr name \<Rightarrow> Inr name
           | Inl e \<Rightarrow> if e = NoSuchProcess \<or> e = AccessDenied then Inr ''Unknown'' else Inl e))"

subsection \<open>\<^verbatim>\<open>_update_process_bandwidth\<close>\<close>

text \<open>The loop over \<^verbatim>\<open>current_counters.items()\<close> that fills the new rate table.\<close>

fun process_rates ::
  "(int \<times> proc_counters) list \<Rightarrow> real \<Rightarrow> (int \<times> proc_counters) list \<Rightarrow>
   (int \<times> proc_bw) list \<Rightarrow> (int \<times> proc_bw) list" where
  "process_rates prev time_delta [] acc = acc"
| "process_rates prev time_delta ((p, current) # rest) acc =
     (case map_of prev p of
        None \<Rightarrow> process_rates prev time_delta rest acc
      | Some previous \<Rightarrow>
          let bytes_in_delta = max 0 (bytes_in current - bytes_in previous);
              bytes_out_delta = max 0 (bytes_out current - bytes_out previous)
          in process_rates prev time_delta rest
               (AList.update p \<lparr>bw_download = bytes_in_delta / time_delta,
                                bw_upload = bytes_out_delta / time_delta\<rparr> acc))"

definition store_counters ::
  "(int \<times> proc_counters) list \<Rightarrow> (int \<times> proc_counters) list" where
  "store_counters entries = foldl (\<lambda>d (p, c). AList.update p c d) [] entries"

definition update_process_bandwidth :: "monitor \<Rightarrow> real \<Rightarrow> nettop_result \<Rightarrow> monitor" where
  "update_process_bandwidth m current_time res =
     (case res of
        Nettop_raised e \<Rightarrow> m
      | Nettop_exit returncode entries \<Rightarrow>
          if returncode \<noteq> 0 then m
          else
            let current_counters = store_counters entries;
                m1 =
                  (case previous_nettop_time m of
                     None \<Rightarrow> m
                   | Some prev_time \<Rightarrow>
                       if previous_process_counters m = [] then m
                       else
                         let time_delta = current_time - prev_time
                         in if time_delta > 0 then
                              m\<lparr>process_bandwidth :=
                                  process_rates (previous_process_counters m) time_delta
                                    current_counters []\<rparr>
                            else m)
            in m1\<lparr>previous_process_counters := current_counters,
                  previous_nettop_time := Some current_time\<rparr>)"

subsection \<open>\<^verbatim>\<open>update\<close>\<close>

definition pid_or_zero :: "int option \<Rightarrow> int" where
  "pid_or_zero p = (case p of None \<Rightarrow> 0 | Some i \<Rightarrow> if i \<noteq> 0 then i else 0)"

definition bandwidth_of :: "(int \<times> proc_bw) list \<Rightarrow> int \<Rightarrow> proc_bw" where
  "bandwidth_of table p =
     (case map_of table p of Some bw \<Rightarrow> bw | None \<Rightarrow> \<lparr>bw_download = 0, bw_upload = 0\<rparr>)"

text \<open>The dictionary built by either branch of the loop body for one socket.\<close>

definition connection_entry ::
  "monitor \<Rightarrow> sconn \<Rightarrow> string \<Rightarrow> real \<Rightarrow> connection" where
  "connection_entry m conn pname now =
     (let cid = get_connection_id conn;
          p = pid_or_zero (sconn_pid conn);
          proc_bw = bandwidth_of (process_bandwidth m) p
      in case map_of (connections m) cid of
           Some existing \<Rightarrow>
             \<lparr>conn_id = cid,
              local_addr = format_addr (laddr conn),
              remote_addr = format_addr (raddr conn),
              protocol = name_of (sock_type conn),
              state = status conn,
              process_name = pname,
              pid = p,
              upload_speed = bw_upload proc_bw,
              download_speed = bw_download proc_bw,
              duration = now - conn_start_time existing,
              conn_bytes_sent = 0,
              conn_bytes_received = 0,
              conn_start_time = conn_start_time existing\<rparr>
         | None \<Rightarrow>
             \<lparr>conn_id = cid,
              local_addr = format_addr (laddr conn),
              remote_addr = format_addr (raddr conn),
              protocol = name_of (sock_type conn),
              state = status conn,
              process_name = pname,
              pid = p,
              upload_speed = bw_upload proc_bw,
              download_speed = bw_download proc_bw,
              duration = 0,
              conn_bytes_sent = 0,
              conn_bytes_received = 0,
              conn_start_time = now\<rparr>)"

text \<open>
  The \<^verbatim>\<open>for conn in connections_list\<close> loop; \<open>m\<close> still holds the table of the
  previous call, \<open>cur\<close> is \<^verbatim>\<open>current_connections\<close>.  An exception of the name lookup
  that \<^verbatim>\<open>_get_process_name\<close> does not catch leaves the loop.
\<close>

fun reconcile ::
  "monitor \<Rightarrow> conn_obs list \<Rightarrow> (string \<times> connection) list \<Rightarrow>
   error + (string \<times> connection) list" where
  "reconcile m [] cur = Inr cur"
| "reconcile m (ob # rest) cur =
     (if raddr (obs_conn ob) = None then reconcile m rest cur
      else
        (case get_process_name (sconn_pid (obs_conn ob)) (obs_name ob) of
           Inl e \<Rightarrow> Inl e
         | Inr pname \<Rightarrow>
             reconcile m rest
               (AList.update (get_connection_id (obs_conn ob))
                  (connection_entry m (obs_conn ob) pname (obs_time ob)) cur)))"

text \<open>Python's \<^verbatim>\<open>sum\<close>: start at 0 and add from left to right.\<close>

definition py_sum :: "real list \<Rightarrow> real" where
  "py_sum xs = foldl (+) 0 xs"

definition get_stats :: "monitor \<Rightarrow> real \<Rightarrow> stats" where
  "get_stats m now =
     \<lparr>total_upload_speed = py_sum (map (\<lambda>(p, bw). bw_upload bw) (process_bandwidth m)),
      total_download_speed = py_sum (map (\<lambda>(p, bw). bw_download bw) (process_bandwidth m)),
      stats_active_connections = length (connections m),
      stats_total_bytes_sent = total_bytes_sent m,
      stats_total_bytes_received = total_bytes_received m,
      uptime = now - start_time m\<rparr>"

definition get_connections :: "monitor \<Rightarrow> connection list" where
  "get_connections m = map snd (connections m)"

definition get_bandwidth_history :: "monitor \<Rightarrow> (string \<times> real) list list" where
  "get_bandwidth_history m = map to_dict (items (bandwidth_history m))"

text \<open>
  \<^verbatim>\<open>update\<close> returns the object as the call leaves it together with either the
  exception that left the call or the dictionary it returns.
\<close>

definition update :: "monitor \<Rightarrow> tick \<Rightarrow> monitor \<times> (error + snapshot)" where
  "update m tk =
     (case update_io_counters m (io_sample tk) (io_time tk) of
        (m1, Some e) \<Rightarrow> (m1, Inl e)
      | (m1, None) \<Rightarrow>
          (let m2 = update_process_bandwidth m1 (nettop_time tk) (nettop_run tk);
               listing =
                 (case conn_sample tk of
                    Inr connections_list \<Rightarrow> Inr connections_list
                  | Inl e \<Rightarrow>
                      (if e = AccessDenied \<or> e = PermissionError then Inr [] else Inl e))
           in (case listing of
                 Inl e \<Rightarrow> (m2, Inl e)
               | Inr connections_list \<Rightarrow>
                   (case reconcile m2 connections_list [] of
                      Inl e \<Rightarrow> (m2, Inl e)
                    | Inr current_connections \<Rightarrow>
                        (let m3 = m2\<lparr>connections := current_connections\<rparr>
                         in (m3, Inr \<lparr>snap_connections = map snd (connections m3),
                                      snap_stats = get_stats m3 (end_time tk)\<rparr>))))))"

text \<open>
  The object after successive calls of \<^verbatim>\<open>update\<close>, whether a call returns or raises
  (both callers in \<^verbatim>\<open>main.py\<close> catch the exception and keep the object).
\<close>

fun updates :: "monitor \<Rightarrow> tick list \<Rightarrow> monitor" where
  "updates m [] = m"
| "updates m (tk # tks) = updates (fst (update m tk)) tks"

section \<open>The broadcast loop of \<^verbatim>\<open>main.py\<close>\<close>

text \<open>
  The set \<^verbatim>\<open>active_connections\<close> is a duplicate-free list in the order in which the
  \<^verbatim>\<open>for\<close> loop visits it.  The loop body awaits \<^verbatim>\<open>send_text\<close>; while it waits, the
  coroutine \<^verbatim>\<open>websocket_endpoint\<close> of a client may run and add its socket to the set
  (line 153) or discard it (line 188).  At most one such event per awaited send is
  modelled.
\<close>

datatype 'ws event = Joined 'ws | Left 'ws

definition apply_event :: "'ws event option \<Rightarrow> 'ws list \<Rightarrow> 'ws list" where
  "apply_event ev live =
     (case ev of
        None \<Rightarrow> live
      | Some (Joined c) \<Rightarrow> (if c \<in> set live then live else live @ [c])
      | Some (Left c) \<Rightarrow> removeAll c live)"

text \<open>
  The \<^verbatim>\<open>for connection in active_connections\<close> loop.  \<open>send c\<close> tells whether
  \<^verbatim>\<open>send_text\<close> to \<open>c\<close> returns (otherwise it raises) and what happens to the set
  meanwhile.  \<open>used\<close> is the size of the set when the iteration started: the set
  iterator compares it with the present size each time it is asked for the next
  element, also after the last one, and raises \<^verbatim>\<open>RuntimeError\<close> when they differ.
  The loop returns the set as it is now, the clients \<^verbatim>\<open>send_text\<close> was called on, and
  the set \<^verbatim>\<open>disconnected\<close>, or \<open>None\<close> in its place when the iterator raised.
\<close>

fun send_all ::
  "('ws \<Rightarrow> bool \<times> 'ws event option) \<Rightarrow> nat \<Rightarrow> 'ws list \<Rightarrow> 'ws list \<Rightarrow> 'ws list \<Rightarrow> 'ws list \<Rightarrow>
   'ws list \<times> 'ws list \<times> 'ws list option" where
  "send_all send used live [] sent disconnected =
     (live, sent, if length live = used then Some disconnected else None)"
| "send_all send used live (c # rest) sent disconnected =
     (if length live = used then
        send_all send used (apply_event (snd (send c)) live) rest (sent @ [c])
          (if fst (send c) then disconnected else List.insert c disconnected)
      else (live, sent, None))"

text \<open>
  One pass through the body of \<^verbatim>\<open>while True\<close> in \<^verbatim>\<open>monitor_network\<close>: the monitor
  afterwards, the subscribers afterwards, and the clients a delivery was attempted to.
  An exception of \<^verbatim>\<open>update\<close> or of the iterator is caught at line 53, so that
  \<^verbatim>\<open>difference_update\<close> is not reached.
\<close>

fun monitor_network_step ::
  "monitor \<times> 'ws list \<Rightarrow> tick \<times> ('ws \<Rightarrow> bool \<times> 'ws event option) \<Rightarrow>
   (monitor \<times> 'ws list) \<times> 'ws list" where
  "monitor_network_step (m, active_connections) (tk, send) =
     (case update m tk of
        (m', Inl e) \<Rightarrow> ((m', active_connections), [])
      | (m', Inr data) \<Rightarrow>
          (if active_connections = [] then ((m', active_connections), [])
           else
             (case send_all send (length active_connections) active_connections
                     active_connections [] [] of
                (live, sent, None) \<Rightarrow> ((m', live), sent)
              | (live, sent, Some disconnected) \<Rightarrow>
                  ((m', filter (\<lambda>c. c \<notin> set disconnected) live), sent))))"

text \<open>The \<^verbatim>\<open>active_connections\<close> field of the \<^verbatim>\<open>/health\<close> answer.\<close>

definition health :: "'ws list \<Rightarrow> nat" where
  "health active_connections = length active_connections"

section \<open>Inputs of the examples\<close>

text \<open>
  A call of \<^verbatim>\<open>update\<close> at time \<open>t\<close> that reads the aggregate counters
  \<open>(sent, recv)\<close>, fails to run \<^verbatim>\<open>nettop\<close> and finds no sockets; and the object the
  constructor returns at time \<open>t\<close> on these counters.
\<close>

definition idle_tick :: "real \<Rightarrow> int \<Rightarrow> int \<Rightarrow> tick" where
  "idle_tick t sent recv =
     \<lparr>io_sample = Inr (Some \<lparr>bytes_sent = sent, bytes_recv = recv\<rparr>), io_time = t,
      nettop_time = t, nettop_run = Nettop_raised OtherError,
      conn_sample = Inr [], end_time = t\<rparr>"

definition constructed :: "int \<Rightarrow> real \<Rightarrow> int \<Rightarrow> int \<Rightarrow> monitor" where
  "constructed n t sent recv =
     (fresh_monitor n t)
       \<lparr>previous_io_counters := Some \<lparr>bytes_sent = sent, bytes_recv = recv\<rparr>,
        previous_time := Some t, total_bytes_sent := sent, total_bytes_received := recv\<rparr>"

text \<open>
  A call of \<^verbatim>\<open>update\<close> at time \<open>t\<close> that reads the given aggregate counters, gets
  the given outcome of \<^verbatim>\<open>nettop\<close> and enumerates the given sockets.
\<close>

definition sample_tick ::
  "real \<Rightarrow> int \<Rightarrow> int \<Rightarrow> nettop_result \<Rightarrow> conn_obs list \<Rightarrow> tick" where
  "sample_tick t sent recv res obs =
     \<lparr>io_sample = Inr (Some \<lparr>bytes_sent = sent, bytes_recv = recv\<rparr>), io_time = t,
      nettop_time = t, nettop_run = res, conn_sample = Inr obs, end_time = t\<rparr>"

text \<open>
  An established TCP socket from 10.0.0.1:5000 to port 443 of a remote host, a
  listening socket, and a socket as the loop body sees it at time \<open>t\<close> when the name
  lookup answers \<open>name\<close>.
\<close>

definition sock :: "string \<Rightarrow> int option \<Rightarrow> sconn" where
  "sock remote_ip p =
     \<lparr>laddr = Some \<lparr>ip = ''10.0.0.1'', port = 5000\<rparr>,
      raddr = Some \<lparr>ip = remote_ip, port = 443\<rparr>,
      sock_type = SOCK_STREAM, status = ''ESTABLISHED'', sconn_pid = p\<rparr>"

definition listening :: "int option \<Rightarrow> sconn" where
  "listening p =
     \<lparr>laddr = Some \<lparr>ip = ''0.0.0.0'', port = 8080\<rparr>, raddr = None,
      sock_type = SOCK_STREAM, status = ''LISTEN'', sconn_pid = p\<rparr>"

definition seen :: "sconn \<Rightarrow> string \<Rightarrow> real \<Rightarrow> conn_obs" where
  "seen c name t = \<lparr>obs_conn = c, obs_name = Inr name, obs_time = t\<rparr>"


section \<open>The aggregate counters and the history buffer\<close>

lemma update_process_bandwidth_history:
  "bandwidth_history (update_process_bandwidth m t r) = bandwidth_history m"
  by (simp add: update_process_bandwidth_def Let_def split: nettop_result.splits option.splits)

lemma update_io_counters_first:
  "previous_io_counters m = None \<Longrightarrow>
   update_io_counters m (Inr (Some c)) t =
     (m\<lparr>previous_io_counters := Some c, previous_time := Some t,
        total_bytes_sent := bytes_sent c, total_bytes_received := bytes_recv c\<rparr>, None)"
  by (simp add: update_io_counters_def history_step_def)

lemma update_io_counters_next:
  "previous_io_counters m = Some prev \<Longrightarrow> previous_time m = Some pt \<Longrightarrow>
   update_io_counters m (Inr (Some c)) t =
     ((if t - pt > 0 then
         m\<lparr>bandwidth_history := deque_append (bandwidth_history m)
              \<lparr>timestamp = t,
               upload = real_of_int (bytes_sent c - bytes_sent prev) / (t - pt),
               download = real_of_int (bytes_recv c - bytes_recv prev) / (t - pt)\<rparr>\<rparr>
       else m)
      \<lparr>previous_io_counters := Some c, previous_time := Some t,
       total_bytes_sent := bytes_sent c, total_bytes_received := bytes_recv c\<rparr>, None)"
  by (simp add: update_io_counters_def history_step_def Let_def)

lemma update_io_counters_history:
  "bandwidth_history (fst (update_io_counters m s t)) =
     (case (s, previous_io_counters m, previous_time m) of
        (Inr (Some c), Some prev, Some pt) \<Rightarrow>
          if pt < t then
            deque_append (bandwidth_history m)
              \<lparr>timestamp = t,
               upload = real_of_int (bytes_sent c - bytes_sent prev) / (t - pt),
               download = real_of_int (bytes_recv c - bytes_recv prev) / (t - pt)\<rparr>
          else bandwidth_history m
      | _ \<Rightarrow> bandwidth_history m)"
  by (simp add: update_io_counters_def history_step_def Let_def
      split: sum.splits option.splits)

lemma update_io_counters_previous_time:
  "previous_time m \<noteq> None \<Longrightarrow> previous_time (fst (update_io_counters m s t)) \<noteq> None"
  by (simp add: update_io_counters_def history_step_def Let_def
      split: sum.splits option.splits)

lemma update_process_bandwidth_io:
  "previous_time (update_process_bandwidth m t r) = previous_time m \<and>
   previous_io_counters (update_process_bandwidth m t r) = previous_io_counters m"
  by (simp add: update_process_bandwidth_def Let_def split: nettop_result.splits option.splits)

lemma update_fst:
  assumes "update_io_counters m (io_sample tk) (io_time tk) = (m1, r)"
  shows "fst (update m tk) = m1 \<or>
         fst (update m tk) = update_process_bandwidth m1 (nettop_time tk) (nettop_run tk) \<or>
         (\<exists>cur. fst (update m tk) =
            (update_process_bandwidth m1 (nettop_time tk) (nettop_run tk))\<lparr>connections := cur\<rparr>)"
proof (cases r)
  case (Some e)
  with assms show ?thesis by (simp add: update_def)
next
  case None
  with assms show ?thesis
    unfolding update_def Let_def by (auto split: sum.splits)
qed

lemma update_fst_io:
  "bandwidth_history (fst (update m tk)) =
     bandwidth_history (fst (update_io_counters m (io_sample tk) (io_time tk))) \<and>
   previous_time (fst (update m tk)) =
     previous_time (fst (update_io_counters m (io_sample tk) (io_time tk))) \<and>
   previous_io_counters (fst (update m tk)) =
     previous_io_counters (fst (update_io_counters m (io_sample tk) (io_time tk)))"
proof (cases "update_io_counters m (io_sample tk) (io_time tk)")
  case (Pair m1 r)
  from update_fst [OF Pair] show ?thesis
    by (auto simp: Pair update_process_bandwidth_history update_process_bandwidth_io)
qed


lemma init_Inr:
  "NetworkMonitor_init n ts (Inr (Some c0)) t0 = Inr m \<Longrightarrow>
   0 \<le> n \<and> m = (fresh_monitor n ts)\<lparr>previous_io_counters := Some c0, previous_time := Some t0,
            total_bytes_sent := bytes_sent c0, total_bytes_received := bytes_recv c0\<rparr>"
  by (auto simp: NetworkMonitor_init_def update_io_counters_first fresh_monitor_def split: if_splits)

lemma init_constructed:
  "0 \<le> n \<Longrightarrow>
   NetworkMonitor_init n t (Inr (Some \<lparr>bytes_sent = sent, bytes_recv = recv\<rparr>)) t =
     Inr (constructed n t sent recv)"
  by (simp add: NetworkMonitor_init_def constructed_def update_io_counters_first fresh_monitor_def)

lemma update_idle_tick:
  "previous_io_counters m = Some prev \<Longrightarrow> previous_time m = Some pt \<Longrightarrow>
   fst (update m (idle_tick t sent recv)) =
     (if pt < t then
         m\<lparr>bandwidth_history := deque_append (bandwidth_history m)
                  \<lparr>timestamp = t,
                   upload = real_of_int (sent - bytes_sent prev) / (t - pt),
                   download = real_of_int (recv - bytes_recv prev) / (t - pt)\<rparr>\<rparr>
           else m)
          \<lparr>connections := [],
           previous_io_counters := Some \<lparr>bytes_sent = sent, bytes_recv = recv\<rparr>,
           previous_time := Some t,
           total_bytes_sent := sent, total_bytes_received := recv\<rparr>"
  by (simp add: update_def idle_tick_def update_io_counters_next update_process_bandwidth_def Let_def)

lemma deque_append_items:
  "length (items d) \<le> maxlen d \<Longrightarrow>
   items (deque_append d x) =
     (if length (items d) < maxlen d then items d @ [x] else tl (items d @ [x]))"
  by (auto simp: deque_append_def Let_def)

lemma deque_append_bounded:
  "length (items d) \<le> maxlen d \<Longrightarrow>
   length (items (deque_append d x)) \<le> maxlen d \<and> maxlen (deque_append d x) = maxlen d"
  by (auto simp: deque_append_def Let_def)

lemma update_history_inv:
  assumes "maxlen (bandwidth_history m) = n \<and> length (items (bandwidth_history m)) \<le> n \<and>
     previous_time m \<noteq> None"
  shows "maxlen (bandwidth_history (fst (update m tk))) = n \<and>
     length (items (bandwidth_history (fst (update m tk)))) \<le> n \<and>
     previous_time (fst (update m tk)) \<noteq> None"
proof -
  have len: "length (items (bandwidth_history m)) \<le> maxlen (bandwidth_history m)"
    using assms by simp
  have "maxlen (bandwidth_history (fst (update_io_counters m (io_sample tk) (io_time tk)))) = n \<and>
     length (items (bandwidth_history (fst (update_io_counters m (io_sample tk) (io_time tk))))) \<le> n"
    using assms deque_append_bounded [OF len]
    by (simp add: update_io_counters_history split: sum.splits option.splits)
  then show ?thesis
    using assms by (simp add: update_fst_io update_io_counters_previous_time)
qed

lemma updates_history_inv:
  "maxlen (bandwidth_history m) = n \<and> length (items (bandwidth_history m)) \<le> n \<and>
     previous_time m \<noteq> None \<Longrightarrow>
   maxlen (bandwidth_history (updates m tks)) = n \<and>
     length (items (bandwidth_history (updates m tks))) \<le> n \<and>
     previous_time (updates m tks) \<noteq> None"
proof (induction tks arbitrary: m)
  case Nil
  then show ?case by simp
next
  case (Cons tk tks)
  from Cons.IH [OF update_history_inv [OF Cons.prems]] show ?case by simp
qed

lemma init_history_inv:
  "NetworkMonitor_init n ts s t0 = Inr m0 \<Longrightarrow>
   maxlen (bandwidth_history m0) = nat n \<and> length (items (bandwidth_history m0)) \<le> nat n \<and>
     previous_time m0 \<noteq> None"
  by (auto simp: NetworkMonitor_init_def update_io_counters_def history_step_def fresh_monitor_def
      Let_def split: if_splits sum.splits option.splits)


text \<open>
  Claim C1.  Every point appended by \<^verbatim>\<open>_update_io_counters\<close> carries the counter
  difference divided by the elapsed time, and the claim adds that a rate is clamped at
  zero when a counter regresses.  The per-process path clamps its deltas; the aggregate
  path does not: a monitor constructed at time 0 on the counters (1000, 2000) whose
  next sample at time 1 reads (500, 2500) appends a point with upload \<open>- 500\<close>.
\<close>

theorem aggregate_rate_not_clamped:
  "NetworkMonitor_init 60 0 (Inr (Some \<lparr>bytes_sent = 1000, bytes_recv = 2000\<rparr>)) 0 =
     Inr (constructed 60 0 1000 2000) \<and>
   items (bandwidth_history (fst (update (constructed 60 0 1000 2000) (idle_tick 1 500 2500)))) =
     [\<lparr>timestamp = 1, upload = - 500, download = 500\<rparr>]"
  by (simp add: init_constructed update_idle_tick constructed_def fresh_monitor_def
      deque_append_def)

text \<open>
  Claim C2, as stated: the first call of \<^verbatim>\<open>update\<close> after construction appends no
  point.  It does: the constructor has already sampled the counters, so a monitor
  constructed at time 0 on (0, 0) whose first \<^verbatim>\<open>update\<close> at time 1 reads
  (1000, 2000) holds one point afterwards.
\<close>

theorem first_update_appends_point:
  "NetworkMonitor_init 60 0 (Inr (Some \<lparr>bytes_sent = 0, bytes_recv = 0\<rparr>)) 0 =
     Inr (constructed 60 0 0 0) \<and>
   items (bandwidth_history (fst (update (constructed 60 0 0 0) (idle_tick 1 1000 2000)))) =
     [\<lparr>timestamp = 1, upload = 1000, download = 2000\<rparr>]"
  by (simp add: init_constructed update_idle_tick constructed_def fresh_monitor_def
      deque_append_def)

text \<open>
  Claim C2, amended.  The sample without a baseline is the one the constructor takes:
  a constructed monitor has an empty history.  The call of \<^verbatim>\<open>update\<close> that directly
  follows the construction, when its counter sample succeeds, appends exactly one point
  if its clock reading is later than the constructor's, namely the difference to the
  constructor's counters divided by the elapsed time, and appends nothing if the clock
  has not advanced (for a positive history length).  Constructed on (1000, 2000), and
  updated one second later on (1500, 2500), the history is the single point with upload
  500 and download 500.
\<close>

theorem constructor_is_baseline:
  assumes "NetworkMonitor_init n ts (Inr (Some c0)) t0 = Inr m"
    and "0 < n" and "io_sample tk = Inr (Some c)"
  shows "get_bandwidth_history m = [] \<and>
         get_bandwidth_history (fst (update m tk)) =
           (if t0 < io_time tk then
              [[(''timestamp'', io_time tk),
                (''upload'', real_of_int (bytes_sent c - bytes_sent c0) / (io_time tk - t0)),
                (''download'', real_of_int (bytes_recv c - bytes_recv c0) / (io_time tk - t0))]]
            else [])"
proof -
  from init_Inr [OF assms(1)]
  have m: "m = (fresh_monitor n ts)\<lparr>previous_io_counters := Some c0, previous_time := Some t0,
            total_bytes_sent := bytes_sent c0, total_bytes_received := bytes_recv c0\<rparr>"
    by simp
  have h0: "bandwidth_history m = \<lparr>maxlen = nat n, items = []\<rparr>"
    by (simp add: m fresh_monitor_def)
  have p: "previous_io_counters m = Some c0" "previous_time m = Some t0"
    by (simp_all add: m)
  have "bandwidth_history (fst (update m tk)) =
          (if t0 < io_time tk then
             deque_append (bandwidth_history m)
               \<lparr>timestamp = io_time tk,
                upload = real_of_int (bytes_sent c - bytes_sent c0) / (io_time tk - t0),
                download = real_of_int (bytes_recv c - bytes_recv c0) / (io_time tk - t0)\<rparr>
           else bandwidth_history m)"
    by (simp add: update_fst_io update_io_counters_history assms(3) p)
  then show ?thesis
    using assms(2) by (simp add: get_bandwidth_history_def to_dict_def h0 deque_append_def)
qed

theorem constructor_is_baseline_witness:
  "NetworkMonitor_init 60 0 (Inr (Some \<lparr>bytes_sent = 1000, bytes_recv = 2000\<rparr>)) 0 =
     Inr (constructed 60 0 1000 2000) \<and>
   get_bandwidth_history (constructed 60 0 1000 2000) = [] \<and>
   get_bandwidth_history (fst (update (constructed 60 0 1000 2000) (idle_tick 1 1500 2500))) =
     [[(''timestamp'', 1), (''upload'', 500), (''download'', 500)]] \<and>
   get_bandwidth_history (fst (update (constructed 60 0 1000 2000) (idle_tick 0 1500 2500))) = []"
proof -
  have i: "NetworkMonitor_init 60 0 (Inr (Some \<lparr>bytes_sent = 1000, bytes_recv = 2000\<rparr>)) 0 =
     Inr (constructed 60 0 1000 2000)"
    by (simp add: init_constructed)
  have s: "io_sample (idle_tick t 1500 2500) = Inr (Some \<lparr>bytes_sent = 1500, bytes_recv = 2500\<rparr>)"
    for t
    by (simp add: idle_tick_def)
  from constructor_is_baseline [OF i _ s, of 1] constructor_is_baseline [OF i _ s, of 0] i
  show ?thesis by (simp add: idle_tick_def)
qed

text \<open>
  Claim C4.  In every state reached from the constructor by calls of \<^verbatim>\<open>update\<close>,
  \<^verbatim>\<open>get_bandwidth_history\<close> returns at most \<open>history_length\<close> dictionaries.  A further
  call whose sample succeeds against a stored baseline with a later clock reading
  returns the former list followed by the dictionary of the new point, without its
  first element when the buffer was full: the list is ordered oldest to newest and the
  oldest point is the one evicted.  Any other call leaves the list as it was.  With
  capacity 2, three appending calls leave the second and the third point.
\<close>

theorem history_bounded_fifo:
  assumes "NetworkMonitor_init n ts s t0 = Inr m0" and "m = updates m0 tks"
  shows "length (get_bandwidth_history m) \<le> nat n \<and>
         (\<exists>pt. previous_time m = Some pt \<and>
            get_bandwidth_history (fst (update m tk)) =
              (case (io_sample tk, previous_io_counters m) of
                 (Inr (Some c), Some prev) \<Rightarrow>
                   if pt < io_time tk then
                     (let point =
                        [(''timestamp'', io_time tk),
                         (''upload'', real_of_int (bytes_sent c - bytes_sent prev) / (io_time tk - pt)),
                         (''download'', real_of_int (bytes_recv c - bytes_recv prev) / (io_time tk - pt))]
                      in if length (get_bandwidth_history m) < nat n
                         then get_bandwidth_history m @ [point]
                         else tl (get_bandwidth_history m @ [point]))
                   else get_bandwidth_history m
               | _ \<Rightarrow> get_bandwidth_history m))"
proof -
  have inv: "maxlen (bandwidth_history m) = nat n \<and>
      length (items (bandwidth_history m)) \<le> nat n \<and> previous_time m \<noteq> None"
    unfolding assms(2) by (rule updates_history_inv [OF init_history_inv [OF assms(1)]])
  then obtain pt where pt: "previous_time m = Some pt"
    by auto
  have len: "length (items (bandwidth_history m)) \<le> maxlen (bandwidth_history m)"
    and ml: "maxlen (bandwidth_history m) = nat n"
    using inv by simp_all
  have bh: "bandwidth_history (fst (update m tk)) =
     (case (io_sample tk, previous_io_counters m, previous_time m) of
        (Inr (Some c), Some prev, Some pt) \<Rightarrow>
          if pt < io_time tk then
            deque_append (bandwidth_history m)
              \<lparr>timestamp = io_time tk,
               upload = real_of_int (bytes_sent c - bytes_sent prev) / (io_time tk - pt),
               download = real_of_int (bytes_recv c - bytes_recv prev) / (io_time tk - pt)\<rparr>
          else bandwidth_history m
      | _ \<Rightarrow> bandwidth_history m)"
    by (simp add: update_fst_io update_io_counters_history)
  show ?thesis
    unfolding get_bandwidth_history_def bh
    using len deque_append_items [OF len]
    by (simp add: pt ml to_dict_def Let_def map_tl split: sum.splits option.splits)
qed


theorem history_bounded_fifo_witness:
  "NetworkMonitor_init 2 0 (Inr (Some \<lparr>bytes_sent = 0, bytes_recv = 0\<rparr>)) 0 =
     Inr (constructed 2 0 0 0) \<and>
   get_bandwidth_history
     (updates (constructed 2 0 0 0) [idle_tick 1 100 10, idle_tick 2 300 30]) =
     [[(''timestamp'', 1), (''upload'', 100), (''download'', 10)],
      [(''timestamp'', 2), (''upload'', 200), (''download'', 20)]] \<and>
   get_bandwidth_history (fst (update
       (updates (constructed 2 0 0 0) [idle_tick 1 100 10, idle_tick 2 300 30])
       (idle_tick 3 600 60))) =
     [[(''timestamp'', 2), (''upload'', 200), (''download'', 20)],
      [(''timestamp'', 3), (''upload'', 300), (''download'', 30)]]"
proof -
  have i: "NetworkMonitor_init 2 0 (Inr (Some \<lparr>bytes_sent = 0, bytes_recv = 0\<rparr>)) 0 =
     Inr (constructed 2 0 0 0)"
    by (simp add: init_constructed)
  have m: "updates (constructed 2 0 0 0) [idle_tick 1 100 10, idle_tick 2 300 30] =
      (constructed 2 0 0 0)
        \<lparr>bandwidth_history := \<lparr>maxlen = 2, items =
            [\<lparr>timestamp = 1, upload = 100, download = 10\<rparr>,
             \<lparr>timestamp = 2, upload = 200, download = 20\<rparr>]\<rparr>,
         connections := [],
         previous_io_counters := Some \<lparr>bytes_sent = 300, bytes_recv = 30\<rparr>,
         previous_time := Some 2, total_bytes_sent := 300, total_bytes_received := 30\<rparr>"
    by (simp add: update_idle_tick constructed_def fresh_monitor_def deque_append_def)
  have h: "get_bandwidth_history
     (updates (constructed 2 0 0 0) [idle_tick 1 100 10, idle_tick 2 300 30]) =
     [[(''timestamp'', 1), (''upload'', 100), (''download'', 10)],
      [(''timestamp'', 2), (''upload'', 200), (''download'', 20)]]"
    unfolding m by (simp add: get_bandwidth_history_def to_dict_def)
  define M where "M = updates (constructed 2 0 0 0) [idle_tick 1 100 10, idle_tick 2 300 30]"
  have pm: "previous_time M = Some 2"
    "previous_io_counters M = Some \<lparr>bytes_sent = 300, bytes_recv = 30\<rparr>"
    unfolding M_def m by simp_all
  have hm: "get_bandwidth_history M =
     [[(''timestamp'', 1), (''upload'', 100), (''download'', 10)],
      [(''timestamp'', 2), (''upload'', 200), (''download'', 20)]]"
    unfolding M_def by (rule h)
  from history_bounded_fifo [OF i M_def, of "idle_tick 3 600 60"]
  have "get_bandwidth_history (fst (update M (idle_tick 3 600 60))) =
     [[(''timestamp'', 2), (''upload'', 200), (''download'', 20)],
      [(''timestamp'', 3), (''upload'', 300), (''download'', 30)]]"
    by (simp add: pm hm idle_tick_def)
  with i h show ?thesis unfolding M_def by simp
qed

section \<open>The connection table\<close>

lemma update_io_counters_frame:
  "connections (fst (update_io_counters m s t)) = connections m \<and>
   process_bandwidth (fst (update_io_counters m s t)) = process_bandwidth m \<and>
   previous_process_counters (fst (update_io_counters m s t)) = previous_process_counters m \<and>
   previous_nettop_time (fst (update_io_counters m s t)) = previous_nettop_time m \<and>
   start_time (fst (update_io_counters m s t)) = start_time m"
  by (simp add: update_io_counters_def history_step_def Let_def
      split: sum.splits option.splits)

lemma update_io_counters_returns:
  "snd (update_io_counters m (Inr (Some c)) t) = None"
  by (simp add: update_io_counters_def history_step_def Let_def split: option.splits)

lemma update_process_bandwidth_frame:
  "connections (update_process_bandwidth m t r) = connections m \<and>
   start_time (update_process_bandwidth m t r) = start_time m \<and>
   total_bytes_sent (update_process_bandwidth m t r) = total_bytes_sent m \<and>
   total_bytes_received (update_process_bandwidth m t r) = total_bytes_received m"
  by (simp add: update_process_bandwidth_def Let_def split: nettop_result.splits option.splits)

lemma update_process_bandwidth_cong:
  "process_bandwidth m' = process_bandwidth m \<Longrightarrow>
   previous_process_counters m' = previous_process_counters m \<Longrightarrow>
   previous_nettop_time m' = previous_nettop_time m \<Longrightarrow>
   process_bandwidth (update_process_bandwidth m' t r) =
     process_bandwidth (update_process_bandwidth m t r) \<and>
   previous_process_counters (update_process_bandwidth m' t r) =
     previous_process_counters (update_process_bandwidth m t r) \<and>
   previous_nettop_time (update_process_bandwidth m' t r) =
     previous_nettop_time (update_process_bandwidth m t r)"
  by (simp add: update_process_bandwidth_def Let_def split: nettop_result.splits option.splits)

text \<open>The object as the loop over the sockets finds it.\<close>

lemma update_returns:
  assumes io: "io_sample tk = Inr (Some c)"
    and en: "conn_sample tk = Inr obs \<or>
       obs = [] \<and> (conn_sample tk = Inl AccessDenied \<or> conn_sample tk = Inl PermissionError)"
    and m2: "m2 = update_process_bandwidth (fst (update_io_counters m (io_sample tk) (io_time tk)))
       (nettop_time tk) (nettop_run tk)"
    and r: "reconcile m2 obs [] = Inr cur"
  shows "update m tk =
     (m2\<lparr>connections := cur\<rparr>,
      Inr \<lparr>snap_connections = map snd cur,
           snap_stats = get_stats (m2\<lparr>connections := cur\<rparr>) (end_time tk)\<rparr>)"
proof -
  obtain m1 where m1: "update_io_counters m (io_sample tk) (io_time tk) = (m1, None)"
    using update_io_counters_returns [of m c "io_time tk"]
    by (cases "update_io_counters m (io_sample tk) (io_time tk)") (simp add: io)
  have l: "(case conn_sample tk of
              Inr connections_list \<Rightarrow> Inr connections_list
            | Inl e \<Rightarrow> (if e = AccessDenied \<or> e = PermissionError then Inr [] else Inl e)) =
           Inr obs"
    using en by auto
  have r': "reconcile (update_process_bandwidth m1 (nettop_time tk) (nettop_run tk)) obs [] =
      Inr cur"
    using r by (simp add: m2 m1)
  show ?thesis
    unfolding update_def m1 l Let_def by (simp add: r' m2 m1)
qed

lemma reconcile_total:
  "\<forall>ob\<in>set obs. raddr (obs_conn ob) \<noteq> None \<longrightarrow>
      (\<exists>name. get_process_name (sconn_pid (obs_conn ob)) (obs_name ob) = Inr name) \<Longrightarrow>
   \<exists>cur'. reconcile m obs cur = Inr cur'"
proof (induction obs arbitrary: cur)
  case Nil
  then show ?case by simp
next
  case (Cons ob obs)
  then show ?case by (cases "raddr (obs_conn ob) = None") auto
qed

lemma reconcile_keys:
  "reconcile m obs cur = Inr cur' \<Longrightarrow>
   fst ` set cur' =
     fst ` set cur \<union>
     set (map (\<lambda>ob. get_connection_id (obs_conn ob))
            (filter (\<lambda>ob. raddr (obs_conn ob) \<noteq> None) obs))"
proof (induction obs arbitrary: cur)
  case Nil
  then show ?case by simp
next
  case (Cons ob obs)
  show ?case
  proof (cases "raddr (obs_conn ob) = None")
    case True
    with Cons.prems have "reconcile m obs cur = Inr cur'" by simp
    from Cons.IH [OF this] True show ?thesis by auto
  next
    case False
    with Cons.prems obtain pname where
      r: "reconcile m obs (AList.update (get_connection_id (obs_conn ob))
                (connection_entry m (obs_conn ob) pname (obs_time ob)) cur) = Inr cur'"
      by (auto split: sum.splits)
    from Cons.IH [OF r] False show ?thesis
      by (auto simp: dom_update)
  qed
qed

lemma connection_entry_id:
  "conn_id (connection_entry m c pname t) = get_connection_id c"
  by (simp add: connection_entry_def Let_def split: option.splits)

lemma reconcile_distinct:
  "reconcile m obs cur = Inr cur' \<Longrightarrow> distinct (map fst cur) \<Longrightarrow> distinct (map fst cur')"
proof (induction obs arbitrary: cur)
  case Nil
  then show ?case by simp
next
  case (Cons ob obs)
  show ?case
  proof (cases "raddr (obs_conn ob) = None")
    case True
    with Cons.prems have "reconcile m obs cur = Inr cur'" by simp
    from Cons.IH [OF this Cons.prems(2)] show ?thesis .
  next
    case False
    with Cons.prems obtain pname where
      r: "reconcile m obs (AList.update (get_connection_id (obs_conn ob))
                (connection_entry m (obs_conn ob) pname (obs_time ob)) cur) = Inr cur'"
      by (auto split: sum.splits)
    from Cons.IH [OF r distinct_update [OF Cons.prems(2)]] show ?thesis .
  qed
qed

text \<open>Every stored dictionary was built by the loop body for a socket with its key.\<close>

lemma reconcile_entry:
  "reconcile m obs cur = Inr cur' \<Longrightarrow> map_of cur' cid = Some e \<Longrightarrow>
   map_of cur cid = Some e \<or>
   (\<exists>ob \<in> set obs. raddr (obs_conn ob) \<noteq> None \<and> get_connection_id (obs_conn ob) = cid \<and>
      (\<exists>pname. get_process_name (sconn_pid (obs_conn ob)) (obs_name ob) = Inr pname \<and>
         e = connection_entry m (obs_conn ob) pname (obs_time ob)))"
proof (induction obs arbitrary: cur)
  case Nil
  then show ?case by simp
next
  case (Cons ob obs)
  show ?case
  proof (cases "raddr (obs_conn ob) = None")
    case True
    with Cons.prems have "reconcile m obs cur = Inr cur'" by simp
    from Cons.IH [OF this Cons.prems(2)] show ?thesis by auto
  next
    case False
    with Cons.prems obtain pname where
      n: "get_process_name (sconn_pid (obs_conn ob)) (obs_name ob) = Inr pname"
      and r: "reconcile m obs (AList.update (get_connection_id (obs_conn ob))
                (connection_entry m (obs_conn ob) pname (obs_time ob)) cur) = Inr cur'"
      by (auto split: sum.splits)
    from Cons.IH [OF r Cons.prems(2)] False n show ?thesis
      by (auto simp: update_conv' split: if_splits)
  qed
qed


lemma update_table:
  assumes io: "io_sample tk = Inr (Some c)"
    and en: "conn_sample tk = Inr obs \<or>
       obs = [] \<and> (conn_sample tk = Inl AccessDenied \<or> conn_sample tk = Inl PermissionError)"
    and names: "\<forall>ob\<in>set obs. raddr (obs_conn ob) \<noteq> None \<longrightarrow>
       (\<exists>name. get_process_name (sconn_pid (obs_conn ob)) (obs_name ob) = Inr name)"
  obtains m2 cur where
    "m2 = update_process_bandwidth (fst (update_io_counters m (io_sample tk) (io_time tk)))
       (nettop_time tk) (nettop_run tk)"
    "reconcile m2 obs [] = Inr cur"
    "update m tk =
       (m2\<lparr>connections := cur\<rparr>,
        Inr \<lparr>snap_connections = map snd cur,
             snap_stats = get_stats (m2\<lparr>connections := cur\<rparr>) (end_time tk)\<rparr>)"
proof -
  define m2 where "m2 = update_process_bandwidth
     (fst (update_io_counters m (io_sample tk) (io_time tk))) (nettop_time tk) (nettop_run tk)"
  from reconcile_total [OF names] obtain cur where r: "reconcile m2 obs [] = Inr cur"
    by blast
  from update_returns [OF io en m2_def r] m2_def r show ?thesis
    by (rule that [rotated 2])
qed

lemma table_ids:
  "\<forall>(k, e)\<in>set cur. conn_id e = k \<Longrightarrow> map conn_id (map snd cur) = map fst cur"
  by (induction cur) auto

lemma reconcile_ids:
  assumes "reconcile m obs [] = Inr cur"
  shows "map conn_id (map snd cur) = map fst cur"
proof -
  have d: "distinct (map fst cur)"
    using reconcile_distinct [OF assms] by simp
  have *: "conn_id e = k" if "(k, e) \<in> set cur" for k e
  proof -
    from that d have "map_of cur k = Some e" by simp
    from reconcile_entry [OF assms this] show ?thesis
      by (auto simp: connection_entry_id)
  qed
  have "\<forall>(k, e)\<in>set cur. conn_id e = k"
  proof clarify
    fix k e
    assume "(k, e) \<in> set cur"
    then show "conn_id e = k" by (rule *)
  qed
  from table_ids [OF this] show ?thesis .
qed

text \<open>
  Claim C3.  Take a call of \<^verbatim>\<open>update\<close> that samples the counters, enumerates the
  sockets \<open>obs\<close> and meets no exception in a name lookup other than the two that
  \<^verbatim>\<open>_get_process_name\<close> catches.  The call returns; the identities in the table, which
  \<^verbatim>\<open>get_connections\<close> and the returned snapshot list once each, are exactly the
  identities of the enumerated sockets that have a remote address; and an entry of
  the former table whose identity no such socket carries is gone, whatever the table
  held before.
\<close>

theorem table_is_enumeration:
  assumes "io_sample tk = Inr (Some c)" and "conn_sample tk = Inr obs"
    and "\<forall>ob\<in>set obs. raddr (obs_conn ob) \<noteq> None \<longrightarrow>
       (\<exists>name. get_process_name (sconn_pid (obs_conn ob)) (obs_name ob) = Inr name)"
  shows "(\<exists>snap. snd (update m tk) = Inr snap \<and>
            snap_connections snap = get_connections (fst (update m tk))) \<and>
         set (map conn_id (get_connections (fst (update m tk)))) =
           set (map (\<lambda>ob. get_connection_id (obs_conn ob))
                  (filter (\<lambda>ob. raddr (obs_conn ob) \<noteq> None) obs)) \<and>
         distinct (map conn_id (get_connections (fst (update m tk)))) \<and>
         (\<forall>old\<in>set (get_connections m).
            (\<forall>ob\<in>set obs. raddr (obs_conn ob) \<noteq> None \<longrightarrow>
               get_connection_id (obs_conn ob) \<noteq> conn_id old) \<longrightarrow>
            conn_id old \<notin> set (map conn_id (get_connections (fst (update m tk)))))"
proof -
  from assms(2) have en: "conn_sample tk = Inr obs \<or>
       obs = [] \<and> (conn_sample tk = Inl AccessDenied \<or> conn_sample tk = Inl PermissionError)"
    by simp
  from update_table [OF assms(1) en assms(3), of m] obtain m2 cur where
    r: "reconcile m2 obs [] = Inr cur"
    and u: "update m tk =
       (m2\<lparr>connections := cur\<rparr>,
        Inr \<lparr>snap_connections = map snd cur,
             snap_stats = get_stats (m2\<lparr>connections := cur\<rparr>) (end_time tk)\<rparr>)"
    by blast
  have c: "connections (fst (update m tk)) = cur"
    by (simp add: u)
  have ids: "map conn_id (get_connections (fst (update m tk))) = map fst cur"
    unfolding get_connections_def c by (rule reconcile_ids [OF r])
  have keys: "set (map fst cur) =
      set (map (\<lambda>ob. get_connection_id (obs_conn ob))
             (filter (\<lambda>ob. raddr (obs_conn ob) \<noteq> None) obs))"
    using reconcile_keys [OF r] by simp
  have d: "distinct (map fst cur)"
    using reconcile_distinct [OF r] by simp
  have s: "\<exists>snap. snd (update m tk) = Inr snap \<and>
            snap_connections snap = get_connections (fst (update m tk))"
    by (simp add: u get_connections_def)
  show ?thesis
    unfolding ids keys using s d by (auto simp: ids)
qed

text \<open>
  Claim C5.  When the counters have been sampled and \<^verbatim>\<open>psutil.net_connections\<close>
  raises \<^verbatim>\<open>AccessDenied\<close> or \<^verbatim>\<open>PermissionError\<close>, the call of \<^verbatim>\<open>update\<close> returns a
  snapshot instead of raising, the snapshot has no connections and counts none, and
  \<^verbatim>\<open>get_connections\<close> is empty afterwards, whatever the table held before.
\<close>

theorem permission_error_empties_table:
  assumes "io_sample tk = Inr (Some c)" and "conn_sample tk = Inl e"
    and "e = AccessDenied \<or> e = PermissionError"
  shows "\<exists>snap. snd (update m tk) = Inr snap \<and> snap_connections snap = [] \<and>
           stats_active_connections (snap_stats snap) = 0 \<and>
           get_connections (fst (update m tk)) = []"
proof -
  have en: "conn_sample tk = Inr [] \<or>
       [] = [] \<and> (conn_sample tk = Inl AccessDenied \<or> conn_sample tk = Inl PermissionError)"
    using assms(2,3) by auto
  define m2 where "m2 = update_process_bandwidth
     (fst (update_io_counters m (io_sample tk) (io_time tk))) (nettop_time tk) (nettop_run tk)"
  have r: "reconcile m2 [] [] = Inr []"
    by simp
  show ?thesis
    by (simp add: update_returns [OF assms(1) en m2_def r] get_connections_def get_stats_def)
qed


section \<open>Evaluation of the examples\<close>

lemma sample_tick_simps:
  "io_sample (sample_tick t sent recv res obs) = Inr (Some \<lparr>bytes_sent = sent, bytes_recv = recv\<rparr>)"
  "io_time (sample_tick t sent recv res obs) = t"
  "nettop_time (sample_tick t sent recv res obs) = t"
  "nettop_run (sample_tick t sent recv res obs) = res"
  "conn_sample (sample_tick t sent recv res obs) = Inr obs"
  "end_time (sample_tick t sent recv res obs) = t"
  by (simp_all add: sample_tick_def)

lemma sock_simps:
  "laddr (sock rip p) = Some \<lparr>ip = ''10.0.0.1'', port = 5000\<rparr>"
  "raddr (sock rip p) = Some \<lparr>ip = rip, port = 443\<rparr>"
  "sock_type (sock rip p) = SOCK_STREAM"
  "status (sock rip p) = ''ESTABLISHED''"
  "sconn_pid (sock rip p) = p"
  by (simp_all add: sock_def)

lemma listening_simps:
  "raddr (listening p) = None"
  "sconn_pid (listening p) = p"
  by (simp_all add: listening_def)

lemma seen_simps:
  "obs_conn (seen c name t) = c"
  "obs_name (seen c name t) = Inr name"
  "obs_time (seen c name t) = t"
  by (simp_all add: seen_def)

lemma sock_id:
  "get_connection_id (sock rip p) = ''SOCK_STREAM_10.0.0.1:5000_'' @ rip @ '':443_'' @ str_pid p"
  by (simp add: get_connection_id_def sock_def endpoint_def str_int_def name_of_def
      str_nat.simps digit_char_def)

lemma str_pid_simps:
  "str_pid None = ''None''"
  "str_pid (Some 0) = ''0''"
  "str_pid (Some 42) = ''42''"
  "str_pid (Some 43) = ''43''"
  by (simp_all add: str_pid_def str_int_def str_nat.simps digit_char_def)

lemma update_sample_tick:
  "update m (sample_tick t sent recv res obs) =
     (case reconcile
             (update_process_bandwidth
                (fst (update_io_counters m (Inr (Some \<lparr>bytes_sent = sent, bytes_recv = recv\<rparr>)) t))
                t res) obs [] of
        Inl e \<Rightarrow>
          (update_process_bandwidth
             (fst (update_io_counters m (Inr (Some \<lparr>bytes_sent = sent, bytes_recv = recv\<rparr>)) t))
             t res, Inl e)
      | Inr cur \<Rightarrow>
          ((update_process_bandwidth
              (fst (update_io_counters m (Inr (Some \<lparr>bytes_sent = sent, bytes_recv = recv\<rparr>)) t))
              t res)\<lparr>connections := cur\<rparr>,
           Inr \<lparr>snap_connections = map snd cur,
                snap_stats =
                  get_stats
                    ((update_process_bandwidth
                        (fst (update_io_counters m
                           (Inr (Some \<lparr>bytes_sent = sent, bytes_recv = recv\<rparr>)) t))
                        t res)\<lparr>connections := cur\<rparr>) t\<rparr>))"
proof -
  obtain m1 where m1: "update_io_counters m (Inr (Some \<lparr>bytes_sent = sent, bytes_recv = recv\<rparr>)) t =
      (m1, None)"
    using update_io_counters_returns [of m "\<lparr>bytes_sent = sent, bytes_recv = recv\<rparr>" t]
    by (cases "update_io_counters m (Inr (Some \<lparr>bytes_sent = sent, bytes_recv = recv\<rparr>)) t") simp
  show ?thesis
    unfolding update_def sample_tick_simps m1 Let_def by (simp split: sum.splits)
qed

lemma distinct_singleton:
  assumes "set xs = {x}" and "distinct xs"
  shows "xs = [x]"
proof (cases xs)
  case Nil
  with assms(1) show ?thesis by simp
next
  case (Cons a ys)
  with assms have a: "a = x" and "set ys \<subseteq> {x}" and "a \<notin> set ys"
    by auto
  then have "ys = []" by (cases ys) auto
  with Cons a show ?thesis by simp
qed

lemmas example_simps =
  update_sample_tick constructed_def fresh_monitor_def update_io_counters_def history_step_def
  update_process_bandwidth_def store_counters_def Let_def seen_simps sock_simps listening_simps
  get_process_name_def connection_entry_def get_connections_def sock_id str_pid_simps
  pid_or_zero_def bandwidth_of_def format_addr_def endpoint_def name_of_def

theorem table_is_enumeration_witness:
  "map conn_id (get_connections (fst (update (constructed 60 0 0 0)
      (sample_tick 1 0 0 (Nettop_raised FileNotFoundError)
         [seen (sock ''1.2.3.4'' (Some 42)) ''curl'' 1,
          seen (sock ''5.6.7.8'' (Some 43)) ''ssh'' 1,
          seen (listening (Some 44)) ''nginx'' 1])))) =
     [''SOCK_STREAM_10.0.0.1:5000_1.2.3.4:443_42'', ''SOCK_STREAM_10.0.0.1:5000_5.6.7.8:443_43''] \<and>
   map conn_id (get_connections (fst (update
      (fst (update (constructed 60 0 0 0)
         (sample_tick 1 0 0 (Nettop_raised FileNotFoundError)
            [seen (sock ''1.2.3.4'' (Some 42)) ''curl'' 1,
             seen (sock ''5.6.7.8'' (Some 43)) ''ssh'' 1,
             seen (listening (Some 44)) ''nginx'' 1])))
      (sample_tick 2 0 0 (Nettop_raised FileNotFoundError)
         [seen (sock ''5.6.7.8'' (Some 43)) ''ssh'' 2])))) =
     [''SOCK_STREAM_10.0.0.1:5000_5.6.7.8:443_43''] \<and>
   (\<exists>snap. snd (update
      (fst (update (constructed 60 0 0 0)
         (sample_tick 1 0 0 (Nettop_raised FileNotFoundError)
            [seen (sock ''1.2.3.4'' (Some 42)) ''curl'' 1,
             seen (sock ''5.6.7.8'' (Some 43)) ''ssh'' 1,
             seen (listening (Some 44)) ''nginx'' 1])))
      (sample_tick 2 0 0 (Nettop_raised FileNotFoundError)
         [seen (sock ''5.6.7.8'' (Some 43)) ''ssh'' 2])) = Inr snap \<and>
      map conn_id (snap_connections snap) = [''SOCK_STREAM_10.0.0.1:5000_5.6.7.8:443_43''])"
proof -
  let ?t1 = "sample_tick 1 0 0 (Nettop_raised FileNotFoundError)
         [seen (sock ''1.2.3.4'' (Some 42)) ''curl'' 1,
          seen (sock ''5.6.7.8'' (Some 43)) ''ssh'' 1,
          seen (listening (Some 44)) ''nginx'' 1]"
  let ?t2 = "sample_tick 2 0 0 (Nettop_raised FileNotFoundError)
         [seen (sock ''5.6.7.8'' (Some 43)) ''ssh'' 2]"
  define M1 where "M1 = fst (update (constructed 60 0 0 0) ?t1)"
  have a: "map conn_id (get_connections M1) =
     [''SOCK_STREAM_10.0.0.1:5000_1.2.3.4:443_42'', ''SOCK_STREAM_10.0.0.1:5000_5.6.7.8:443_43'']"
    unfolding M1_def by (simp add: example_simps)
  have io: "io_sample ?t2 = Inr (Some \<lparr>bytes_sent = 0, bytes_recv = 0\<rparr>)"
    and en: "conn_sample ?t2 = Inr [seen (sock ''5.6.7.8'' (Some 43)) ''ssh'' 2]"
    by (simp_all add: sample_tick_simps)
  have names: "\<forall>ob\<in>set [seen (sock ''5.6.7.8'' (Some 43)) ''ssh'' 2].
      raddr (obs_conn ob) \<noteq> None \<longrightarrow>
      (\<exists>name. get_process_name (sconn_pid (obs_conn ob)) (obs_name ob) = Inr name)"
    by (simp add: seen_simps sock_simps get_process_name_def)
  from table_is_enumeration [OF io en names, of M1]
  have "(\<exists>snap. snd (update M1 ?t2) = Inr snap \<and>
            snap_connections snap = get_connections (fst (update M1 ?t2))) \<and>
        set (map conn_id (get_connections (fst (update M1 ?t2)))) =
          {''SOCK_STREAM_10.0.0.1:5000_5.6.7.8:443_43''} \<and>
        distinct (map conn_id (get_connections (fst (update M1 ?t2))))"
    by (simp add: seen_simps sock_simps sock_id str_pid_simps)
  then obtain snap where s: "snd (update M1 ?t2) = Inr snap"
      "snap_connections snap = get_connections (fst (update M1 ?t2))"
    and ids: "set (map conn_id (get_connections (fst (update M1 ?t2)))) =
          {''SOCK_STREAM_10.0.0.1:5000_5.6.7.8:443_43''}"
    and d: "distinct (map conn_id (get_connections (fst (update M1 ?t2))))"
    by blast
  from ids d
  have b: "map conn_id (get_connections (fst (update M1 ?t2))) =
      [''SOCK_STREAM_10.0.0.1:5000_5.6.7.8:443_43'']"
    by (rule distinct_singleton)
  from a b s show ?thesis
    unfolding M1_def by auto
qed

theorem permission_error_empties_table_witness:
  "map conn_id (get_connections (fst (update (constructed 60 0 0 0)
      (sample_tick 1 0 0 (Nettop_raised FileNotFoundError)
         [seen (sock ''1.2.3.4'' (Some 42)) ''curl'' 1])))) =
     [''SOCK_STREAM_10.0.0.1:5000_1.2.3.4:443_42''] \<and>
   (\<exists>snap. snd (update
      (fst (update (constructed 60 0 0 0)
         (sample_tick 1 0 0 (Nettop_raised FileNotFoundError)
            [seen (sock ''1.2.3.4'' (Some 42)) ''curl'' 1])))
      ((sample_tick 2 0 0 (Nettop_raised FileNotFoundError) [])
         \<lparr>conn_sample := Inl AccessDenied\<rparr>)) = Inr snap \<and>
      snap_connections snap = [] \<and> stats_active_connections (snap_stats snap) = 0) \<and>
   get_connections (fst (update
      (fst (update (constructed 60 0 0 0)
         (sample_tick 1 0 0 (Nettop_raised FileNotFoundError)
            [seen (sock ''1.2.3.4'' (Some 42)) ''curl'' 1])))
      ((sample_tick 2 0 0 (Nettop_raised FileNotFoundError) [])
         \<lparr>conn_sample := Inl AccessDenied\<rparr>))) = []"
proof -
  let ?t2 = "(sample_tick 2 0 0 (Nettop_raised FileNotFoundError) [])
         \<lparr>conn_sample := Inl AccessDenied\<rparr>"
  have a: "map conn_id (get_connections (fst (update (constructed 60 0 0 0)
      (sample_tick 1 0 0 (Nettop_raised FileNotFoundError)
         [seen (sock ''1.2.3.4'' (Some 42)) ''curl'' 1])))) =
     [''SOCK_STREAM_10.0.0.1:5000_1.2.3.4:443_42'']"
    by (simp add: example_simps)
  have io: "io_sample ?t2 = Inr (Some \<lparr>bytes_sent = 0, bytes_recv = 0\<rparr>)"
    and en: "conn_sample ?t2 = Inl AccessDenied"
    by (simp_all add: sample_tick_def)
  from permission_error_empties_table [OF io en, where m = "fst (update (constructed 60 0 0 0)
      (sample_tick 1 0 0 (Nettop_raised FileNotFoundError)
         [seen (sock ''1.2.3.4'' (Some 42)) ''curl'' 1]))"] a
  show ?thesis
    by auto
qed

section \<open>Durations\<close>

lemma connection_entry_duration:
  "duration (connection_entry m c pname t) = t - conn_start_time (connection_entry m c pname t)"
  by (simp add: connection_entry_def Let_def split: option.splits)

lemma connection_entry_start:
  "conn_start_time (connection_entry m c pname t) =
     (case map_of (connections m) (get_connection_id c) of
        Some existing \<Rightarrow> conn_start_time existing | None \<Rightarrow> t)"
  by (simp add: connection_entry_def Let_def split: option.splits)

lemma connection_entry_cong:
  "connections m' = connections m \<Longrightarrow> process_bandwidth m' = process_bandwidth m \<Longrightarrow>
   connection_entry m' c pname t = connection_entry m c pname t"
  by (simp add: connection_entry_def)

text \<open>In a table built by the loop, looking an identity up in the list of values is looking up its key.\<close>

lemma find_table:
  "distinct (map fst cur) \<Longrightarrow> \<forall>(k, e)\<in>set cur. conn_id e = k \<Longrightarrow>
   find (\<lambda>e. conn_id e = cid) (map snd cur) = map_of cur cid"
  by (induction cur) auto

lemma reconcile_find:
  assumes "reconcile m obs [] = Inr cur"
  shows "find (\<lambda>e. conn_id e = cid) (map snd cur) = map_of cur cid"
proof -
  have d: "distinct (map fst cur)"
    using reconcile_distinct [OF assms] by simp
  have *: "conn_id e = k" if "(k, e) \<in> set cur" for k e
  proof -
    from that d have "map_of cur k = Some e" by simp
    from reconcile_entry [OF assms this] show ?thesis
      by (auto simp: connection_entry_id)
  qed
  have "\<forall>(k, e)\<in>set cur. conn_id e = k"
  proof clarify
    fix k e
    assume "(k, e) \<in> set cur"
    then show "conn_id e = k" by (rule *)
  qed
  from find_table [OF d this] show ?thesis .
qed

text \<open>What a returning call stores for each member of the new table.\<close>

lemma update_entries:
  assumes io: "io_sample tk = Inr (Some c)" and en: "conn_sample tk = Inr obs"
    and names: "\<forall>ob\<in>set obs. raddr (obs_conn ob) \<noteq> None \<longrightarrow>
       (\<exists>name. get_process_name (sconn_pid (obs_conn ob)) (obs_name ob) = Inr name)"
    and e: "e \<in> set (get_connections (fst (update m tk)))"
  shows "\<exists>ob\<in>set obs. \<exists>pname. raddr (obs_conn ob) \<noteq> None \<and>
           get_process_name (sconn_pid (obs_conn ob)) (obs_name ob) = Inr pname \<and>
           e = connection_entry
                 (m\<lparr>process_bandwidth := process_bandwidth (fst (update m tk))\<rparr>)
                 (obs_conn ob) pname (obs_time ob)"
proof -
  from en have en': "conn_sample tk = Inr obs \<or>
       obs = [] \<and> (conn_sample tk = Inl AccessDenied \<or> conn_sample tk = Inl PermissionError)"
    by simp
  from update_table [OF io en' names, of m] obtain m2 cur where
    m2: "m2 = update_process_bandwidth (fst (update_io_counters m (io_sample tk) (io_time tk)))
       (nettop_time tk) (nettop_run tk)"
    and r: "reconcile m2 obs [] = Inr cur"
    and u: "update m tk =
       (m2\<lparr>connections := cur\<rparr>,
        Inr \<lparr>snap_connections = map snd cur,
             snap_stats = get_stats (m2\<lparr>connections := cur\<rparr>) (end_time tk)\<rparr>)"
    by blast
  have c2: "connections m2 = connections m"
    by (simp add: m2 update_process_bandwidth_frame update_io_counters_frame)
  have p2: "process_bandwidth (fst (update m tk)) = process_bandwidth m2"
    by (simp add: u)
  from e obtain k where "(k, e) \<in> set cur"
    by (auto simp: u get_connections_def)
  moreover have "distinct (map fst cur)"
    using reconcile_distinct [OF r] by simp
  ultimately have "map_of cur k = Some e" by simp
  from reconcile_entry [OF r this] obtain ob pname where
    "ob \<in> set obs" "raddr (obs_conn ob) \<noteq> None"
    "get_process_name (sconn_pid (obs_conn ob)) (obs_name ob) = Inr pname"
    "e = connection_entry m2 (obs_conn ob) pname (obs_time ob)"
    by auto
  moreover have "connection_entry m2 (obs_conn ob) pname (obs_time ob) =
      connection_entry (m\<lparr>process_bandwidth := process_bandwidth (fst (update m tk))\<rparr>)
        (obs_conn ob) pname (obs_time ob)"
    by (rule connection_entry_cong [symmetric]) (simp_all add: c2 p2)
  ultimately show ?thesis by auto
qed

lemma update_find:
  assumes io: "io_sample tk = Inr (Some c)" and en: "conn_sample tk = Inr obs"
    and names: "\<forall>ob\<in>set obs. raddr (obs_conn ob) \<noteq> None \<longrightarrow>
       (\<exists>name. get_process_name (sconn_pid (obs_conn ob)) (obs_name ob) = Inr name)"
  shows "find (\<lambda>e. conn_id e = cid) (get_connections (fst (update m tk))) =
           map_of (connections (fst (update m tk))) cid"
proof -
  from en have en': "conn_sample tk = Inr obs \<or>
       obs = [] \<and> (conn_sample tk = Inl AccessDenied \<or> conn_sample tk = Inl PermissionError)"
    by simp
  from update_table [OF io en' names, of m] obtain m2 cur where
    r: "reconcile m2 obs [] = Inr cur"
    and u: "update m tk =
       (m2\<lparr>connections := cur\<rparr>,
        Inr \<lparr>snap_connections = map snd cur,
             snap_stats = get_stats (m2\<lparr>connections := cur\<rparr>) (end_time tk)\<rparr>)"
    by blast
  have c: "connections (fst (update m tk)) = cur"
    by (simp add: u)
  show ?thesis
    unfolding get_connections_def c by (rule reconcile_find [OF r])
qed


text \<open>
  Claim C9.  Take two consecutive calls of \<^verbatim>\<open>update\<close> that both return, the clock
  readings of the second not earlier than those of the first.  Every entry of the
  table after the second call belongs to a socket enumerated by that call.  If its
  identity was in the table after the first call, it keeps the start time of that entry,
  its duration is the clock reading taken for the socket minus that start time, and
  the duration is not smaller than the one reported before.  Otherwise its start time
  is the clock reading and its duration is 0.
\<close>

theorem duration_carried_forward:
  assumes "io_sample tk1 = Inr (Some c1)" and "conn_sample tk1 = Inr obs1"
    and "\<forall>ob\<in>set obs1. raddr (obs_conn ob) \<noteq> None \<longrightarrow>
       (\<exists>name. get_process_name (sconn_pid (obs_conn ob)) (obs_name ob) = Inr name)"
    and "io_sample tk2 = Inr (Some c2)" and "conn_sample tk2 = Inr obs2"
    and "\<forall>ob\<in>set obs2. raddr (obs_conn ob) \<noteq> None \<longrightarrow>
       (\<exists>name. get_process_name (sconn_pid (obs_conn ob)) (obs_name ob) = Inr name)"
    and "\<forall>ob1\<in>set obs1. \<forall>ob2\<in>set obs2. obs_time ob1 \<le> obs_time ob2"
    and "m1 = fst (update m tk1)" and "m2 = fst (update m1 tk2)"
  shows "\<forall>e2\<in>set (get_connections m2).
           \<exists>ob\<in>set obs2. get_connection_id (obs_conn ob) = conn_id e2 \<and>
             (case find (\<lambda>e. conn_id e = conn_id e2) (get_connections m1) of
                Some e1 \<Rightarrow>
                  conn_start_time e2 = conn_start_time e1 \<and>
                  duration e2 = obs_time ob - conn_start_time e1 \<and>
                  duration e1 \<le> duration e2
              | None \<Rightarrow> conn_start_time e2 = obs_time ob \<and> duration e2 = 0)"
proof
  fix e2
  assume "e2 \<in> set (get_connections m2)"
  then have "e2 \<in> set (get_connections (fst (update m1 tk2)))"
    by (simp add: assms(9))
  from update_entries [OF assms(4,5,6) this] obtain ob pname where
    ob: "ob \<in> set obs2"
    and e2: "e2 = connection_entry
                 (m1\<lparr>process_bandwidth := process_bandwidth (fst (update m1 tk2))\<rparr>)
                 (obs_conn ob) pname (obs_time ob)"
    by blast
  have id: "get_connection_id (obs_conn ob) = conn_id e2"
    by (simp add: e2 connection_entry_id)
  have f: "find (\<lambda>e. conn_id e = conn_id e2) (get_connections m1) =
      map_of (connections m1) (conn_id e2)"
    unfolding assms(8) by (rule update_find [OF assms(1,2,3)])
  have st: "conn_start_time e2 =
      (case map_of (connections m1) (conn_id e2) of
         Some existing \<Rightarrow> conn_start_time existing | None \<Rightarrow> obs_time ob)"
    by (simp add: e2 connection_entry_start connection_entry_id)
  have du: "duration e2 = obs_time ob - conn_start_time e2"
    unfolding e2 by (rule connection_entry_duration)
  have "case map_of (connections m1) (conn_id e2) of
          Some e1 \<Rightarrow>
            conn_start_time e2 = conn_start_time e1 \<and>
            duration e2 = obs_time ob - conn_start_time e1 \<and>
            duration e1 \<le> duration e2
        | None \<Rightarrow> conn_start_time e2 = obs_time ob \<and> duration e2 = 0"
  proof (cases "map_of (connections m1) (conn_id e2)")
    case None
    with st du show ?thesis by simp
  next
    case (Some e1)
    then have "e1 \<in> set (get_connections (fst (update m tk1)))"
      unfolding get_connections_def assms(8) [symmetric]
      by (auto dest: map_of_SomeD intro: rev_image_eqI)
    from update_entries [OF assms(1,2,3) this] obtain ob1 pname1 where
      ob1: "ob1 \<in> set obs1"
      and e1: "e1 = connection_entry
                 (m\<lparr>process_bandwidth := process_bandwidth (fst (update m tk1))\<rparr>)
                 (obs_conn ob1) pname1 (obs_time ob1)"
      by blast
    have "duration e1 = obs_time ob1 - conn_start_time e1"
      unfolding e1 by (rule connection_entry_duration)
    moreover from assms(7) ob1 ob have "obs_time ob1 \<le> obs_time ob"
      by blast
    ultimately show ?thesis
      using st du Some by simp
  qed
  with ob id f
  show "\<exists>ob\<in>set obs2. get_connection_id (obs_conn ob) = conn_id e2 \<and>
             (case find (\<lambda>e. conn_id e = conn_id e2) (get_connections m1) of
                Some e1 \<Rightarrow>
                  conn_start_time e2 = conn_start_time e1 \<and>
                  duration e2 = obs_time ob - conn_start_time e1 \<and>
                  duration e1 \<le> duration e2
              | None \<Rightarrow> conn_start_time e2 = obs_time ob \<and> duration e2 = 0)"
    by auto
qed

theorem duration_carried_forward_witness:
  "map (\<lambda>e. (conn_id e, conn_start_time e, duration e))
     (get_connections (fst (update (constructed 60 0 0 0)
        (sample_tick 1 0 0 (Nettop_raised FileNotFoundError)
           [seen (sock ''1.2.3.4'' (Some 42)) ''curl'' 1])))) =
     [(''SOCK_STREAM_10.0.0.1:5000_1.2.3.4:443_42'', 1, 0)] \<and>
   map (\<lambda>e. (conn_id e, conn_start_time e, duration e))
     (get_connections (fst (update
        (fst (update (constructed 60 0 0 0)
           (sample_tick 1 0 0 (Nettop_raised FileNotFoundError)
              [seen (sock ''1.2.3.4'' (Some 42)) ''curl'' 1])))
        (sample_tick 3 0 0 (Nettop_raised FileNotFoundError)
           [seen (sock ''1.2.3.4'' (Some 42)) ''curl'' 3,
            seen (sock ''5.6.7.8'' (Some 43)) ''ssh'' 3])))) =
     [(''SOCK_STREAM_10.0.0.1:5000_1.2.3.4:443_42'', 1, 2),
      (''SOCK_STREAM_10.0.0.1:5000_5.6.7.8:443_43'', 3, 0)]"
proof -
  let ?t1 = "sample_tick 1 0 0 (Nettop_raised FileNotFoundError)
           [seen (sock ''1.2.3.4'' (Some 42)) ''curl'' 1]"
  let ?t2 = "sample_tick 3 0 0 (Nettop_raised FileNotFoundError)
           [seen (sock ''1.2.3.4'' (Some 42)) ''curl'' 3,
            seen (sock ''5.6.7.8'' (Some 43)) ''ssh'' 3]"
  have io: "io_sample ?t1 = Inr (Some \<lparr>bytes_sent = 0, bytes_recv = 0\<rparr>)"
      "io_sample ?t2 = Inr (Some \<lparr>bytes_sent = 0, bytes_recv = 0\<rparr>)"
    and en: "conn_sample ?t1 = Inr [seen (sock ''1.2.3.4'' (Some 42)) ''curl'' 1]"
      "conn_sample ?t2 = Inr [seen (sock ''1.2.3.4'' (Some 42)) ''curl'' 3,
            seen (sock ''5.6.7.8'' (Some 43)) ''ssh'' 3]"
    by (simp_all add: sample_tick_simps)
  have names: "\<forall>ob\<in>set [seen (sock ''1.2.3.4'' (Some 42)) ''curl'' 1].
      raddr (obs_conn ob) \<noteq> None \<longrightarrow>
      (\<exists>name. get_process_name (sconn_pid (obs_conn ob)) (obs_name ob) = Inr name)"
    "\<forall>ob\<in>set [seen (sock ''1.2.3.4'' (Some 42)) ''curl'' 3,
            seen (sock ''5.6.7.8'' (Some 43)) ''ssh'' 3].
      raddr (obs_conn ob) \<noteq> None \<longrightarrow>
      (\<exists>name. get_process_name (sconn_pid (obs_conn ob)) (obs_name ob) = Inr name)"
    by (simp_all add: seen_simps sock_simps get_process_name_def)
  have clock: "\<forall>ob1\<in>set [seen (sock ''1.2.3.4'' (Some 42)) ''curl'' 1].
      \<forall>ob2\<in>set [seen (sock ''1.2.3.4'' (Some 42)) ''curl'' 3,
            seen (sock ''5.6.7.8'' (Some 43)) ''ssh'' 3]. obs_time ob1 \<le> obs_time ob2"
    by (simp add: seen_simps)
  have a: "map (\<lambda>e. (conn_id e, conn_start_time e, duration e))
     (get_connections (fst (update (constructed 60 0 0 0) ?t1))) =
     [(''SOCK_STREAM_10.0.0.1:5000_1.2.3.4:443_42'', 1, 0)]"
    by (simp add: example_simps)
  have b: "map (\<lambda>e. (conn_id e, conn_start_time e, duration e))
     (get_connections (fst (update (fst (update (constructed 60 0 0 0) ?t1)) ?t2))) =
     [(''SOCK_STREAM_10.0.0.1:5000_1.2.3.4:443_42'', 1, 2),
      (''SOCK_STREAM_10.0.0.1:5000_5.6.7.8:443_43'', 3, 0)]"
    by (simp add: example_simps)
  from duration_carried_forward [OF io(1) en(1) names(1) io(2) en(2) names(2) clock refl refl,
      of "constructed 60 0 0 0"] a b
  show ?thesis by simp
qed

end
